theory Spec2Isabelle
  imports Complex_Main
begin

section \<open>Data model (src/lib/gameUtils.ts)\<close>

text \<open>
  A \<open>THREE.Vector3\<close> is three numbers. JavaScript numbers are modelled as \<open>real\<close>
  (coordinates, radii, timers) and as \<open>int\<close> (health, score, wave, level and the
  millisecond clock \<open>Date.now()\<close>, which only ever hold integers in this program).
\<close>

datatype Vector3 = Vector3 (vec_x: real) (vec_y: real) (vec_z: real)

text \<open>
  Meshes are objects, so they are modelled as references. The position of a mesh is a
  mutable \<open>Vector3\<close> object owned by the mesh; the store \<open>heap\<close> maps every mesh to the
  current value of that object. \<open>PlayerMesh\<close> is the mesh the player ref points to,
  \<open>BulletMesh k\<close> and \<open>EnemyMesh k\<close> are the \<open>k\<close>-th spheres constructed by the bullet
  and the enemy pool's factory, \<open>PowerUpMesh k\<close> the \<open>k\<close>-th sphere constructed by
  \<open>spawnPowerUp\<close>.
\<close>

datatype mesh = PlayerMesh | BulletMesh nat | EnemyMesh nat | PowerUpMesh nat

type_synonym heap = "mesh \<Rightarrow> Vector3"

datatype entity_type = Player | Enemy | Bullet | Powerup

text \<open>
  Entity ids are template strings in the source (\<open>bullet-${now}\<close>,
  \<open>enemy-${Date.now()}-${Math.random()}\<close>, \<open>powerup-${Date.now()}\<close>, \<open>player\<close>); the model
  keeps the interpolated values.
\<close>

datatype entity_id = PlayerId | BulletId int | EnemyId int real | PowerupId int

text \<open>
  \<open>interface GameEntity\<close>. The fields \<open>id\<close>, \<open>health\<close>, \<open>maxHealth\<close>, \<open>type\<close> and
  \<open>active\<close> carry the prefix \<open>e\<close> here, because \<open>GameState\<close> and \<open>PowerUp\<close> have fields of
  the same names. The field \<open>position\<close> is a reference to a \<open>Vector3\<close> object: every
  entity the program builds stores \<open>mesh.position\<close> there, so the reference is the mesh
  that owns the vector, and it is read through the store.
\<close>

record GameEntity =
  eid :: entity_id
  mesh :: mesh
  position :: mesh
  velocity :: Vector3
  ehealth :: int
  emaxHealth :: int
  etype :: entity_type
  eactive :: bool
  radius :: real

datatype powerup_type = Shield | Weapon | Health

record PowerUp =
  pid :: entity_id
  ptype :: powerup_type
  duration :: int
  pactive :: bool
  startTime :: int

datatype status = Menu | Playing | Paused | Gameover

record GameState =
  status :: status
  score :: int
  level :: int
  health :: int
  maxHealth :: int
  shield :: int
  maxShield :: int
  lives :: int
  wave :: int
  enemiesRemaining :: int
  activePowerUps :: "PowerUp list"

text \<open>\<open>Partial<GameState>\<close>: every field may be absent.\<close>

record GameStatePartial =
  p_status :: "status option"
  p_score :: "int option"
  p_level :: "int option"
  p_health :: "int option"
  p_maxHealth :: "int option"
  p_shield :: "int option"
  p_maxShield :: "int option"
  p_lives :: "int option"
  p_wave :: "int option"
  p_enemiesRemaining :: "int option"
  p_activePowerUps :: "PowerUp list option"

definition noChange :: GameStatePartial where
  "noChange = \<lparr>p_status = None, p_score = None, p_level = None, p_health = None,
     p_maxHealth = None, p_shield = None, p_maxShield = None, p_lives = None,
     p_wave = None, p_enemiesRemaining = None, p_activePowerUps = None\<rparr>"

subsection \<open>Vector operations of three.js used by the program\<close>

definition v_add :: "Vector3 \<Rightarrow> Vector3 \<Rightarrow> Vector3" where
  "v_add a b = Vector3 (vec_x a + vec_x b) (vec_y a + vec_y b) (vec_z a + vec_z b)"

definition v_sub :: "Vector3 \<Rightarrow> Vector3 \<Rightarrow> Vector3" where
  "v_sub a b = Vector3 (vec_x a - vec_x b) (vec_y a - vec_y b) (vec_z a - vec_z b)"

definition multiplyScalar :: "Vector3 \<Rightarrow> real \<Rightarrow> Vector3" where
  "multiplyScalar v s = Vector3 (vec_x v * s) (vec_y v * s) (vec_z v * s)"

definition divideScalar :: "Vector3 \<Rightarrow> real \<Rightarrow> Vector3" where
  "divideScalar v s = multiplyScalar v (1 / s)"

definition v_length :: "Vector3 \<Rightarrow> real" where
  "v_length v = sqrt (vec_x v * vec_x v + vec_y v * vec_y v + vec_z v * vec_z v)"

text \<open>\<open>normalize()\<close> is \<open>divideScalar(length() || 1)\<close>.\<close>

definition v_normalize :: "Vector3 \<Rightarrow> Vector3" where
  "v_normalize v = divideScalar v (if v_length v = 0 then 1 else v_length v)"

definition clampLength :: "real \<Rightarrow> real \<Rightarrow> Vector3 \<Rightarrow> Vector3" where
  "clampLength lo hi v =
     (let len = v_length v
      in multiplyScalar (divideScalar v (if len = 0 then 1 else len)) (max lo (min hi len)))"

definition distanceToSquared :: "Vector3 \<Rightarrow> Vector3 \<Rightarrow> real" where
  "distanceToSquared a b =
     (let dx = vec_x a - vec_x b; dy = vec_y a - vec_y b; dz = vec_z a - vec_z b
      in dx * dx + dy * dy + dz * dz)"

definition distanceTo :: "Vector3 \<Rightarrow> Vector3 \<Rightarrow> real" where
  "distanceTo a b = sqrt (distanceToSquared a b)"

subsection \<open>checkCollision and clampPosition\<close>

definition checkCollision :: "heap \<Rightarrow> GameEntity \<Rightarrow> GameEntity \<Rightarrow> bool" where
  "checkCollision h entity1 entity2 =
     (let distance = distanceTo (h (position entity1)) (h (position entity2))
      in distance < radius entity1 + radius entity2)"

definition clampPosition :: "Vector3 \<Rightarrow> Vector3 \<Rightarrow> Vector3" where
  "clampPosition p bounds =
     Vector3 (max (- vec_x bounds) (min (vec_x bounds) (vec_x p)))
             (max (- vec_y bounds) (min (vec_y bounds) (vec_y p)))
             (max (- vec_z bounds) (min (vec_z bounds) (vec_z p)))"

subsection \<open>class ObjectPool\<close>

text \<open>
  The free list \<open>pool\<close> is a JavaScript array used as a stack: \<open>push\<close> appends at the end
  and \<open>pop\<close> takes from the end. The factory \<open>createFn\<close> has an effect (it allocates), so
  the pool carries a construction counter: \<open>constructed\<close> counts the calls of the factory
  so far, and the \<open>k\<close>-th call returns the object \<open>createFn k\<close>. Pooled values are objects,
  hence truthy: \<open>this.pool.pop() || this.createFn()\<close> calls the factory exactly when the
  free list is empty.
\<close>

record 'a ObjectPool =
  pool :: "'a list"
  createFn :: "nat \<Rightarrow> 'a"
  constructed :: nat

definition ObjectPool_new :: "(nat \<Rightarrow> 'a) \<Rightarrow> nat \<Rightarrow> 'a ObjectPool" where
  "ObjectPool_new f initialSize =
     \<lparr>pool = map f [0..<initialSize], createFn = f, constructed = initialSize\<rparr>"

definition get :: "'a ObjectPool \<Rightarrow> 'a \<times> 'a ObjectPool" where
  "get p =
     (if pool p = []
      then (createFn p (constructed p), p\<lparr>constructed := Suc (constructed p)\<rparr>)
      else (last (pool p), p\<lparr>pool := butlast (pool p)\<rparr>))"

definition release :: "'a ObjectPool \<Rightarrow> 'a \<Rightarrow> 'a ObjectPool" where
  "release p item = p\<lparr>pool := pool p @ [item]\<rparr>"

text \<open>\<open>n\<close> calls of \<open>get\<close> in a row, and the release of a list of handles in order.\<close>

fun acquireN :: "nat \<Rightarrow> 'a ObjectPool \<Rightarrow> 'a list \<times> 'a ObjectPool" where
  "acquireN 0 p = ([], p)"
| "acquireN (Suc n) p =
     (let (item, p1) = get p; (items, p2) = acquireN n p1 in (item # items, p2))"

fun releaseAll :: "'a list \<Rightarrow> 'a ObjectPool \<Rightarrow> 'a ObjectPool" where
  "releaseAll [] p = p"
| "releaseAll (item # items) p = releaseAll items (release p item)"

section \<open>Session state and its commands (Game3D)\<close>

definition initialGameState :: GameState where
  "initialGameState =
     \<lparr>status = Menu, score = 0, level = 1, health = 10, maxHealth = 10, shield = 0,
      maxShield = 5, lives = 3, wave = 1, enemiesRemaining = 5, activePowerUps = []\<rparr>"

text \<open>\<open>{ ...prev, ...updates }\<close>: a field of \<open>updates\<close> that is present overrides.\<close>

definition spread :: "'a \<Rightarrow> 'a option \<Rightarrow> 'a" where
  "spread old new = (case new of None \<Rightarrow> old | Some v \<Rightarrow> v)"

definition updateGameState :: "GameState \<Rightarrow> GameStatePartial \<Rightarrow> GameState" where
  "updateGameState prev updates =
     \<lparr>status = spread (status prev) (p_status updates),
      score = spread (score prev) (p_score updates),
      level = spread (level prev) (p_level updates),
      health = spread (health prev) (p_health updates),
      maxHealth = spread (maxHealth prev) (p_maxHealth updates),
      shield = spread (shield prev) (p_shield updates),
      maxShield = spread (maxShield prev) (p_maxShield updates),
      lives = spread (lives prev) (p_lives updates),
      wave = spread (wave prev) (p_wave updates),
      enemiesRemaining = spread (enemiesRemaining prev) (p_enemiesRemaining updates),
      activePowerUps = spread (activePowerUps prev) (p_activePowerUps updates)\<rparr>"

text \<open>
  The updates a frame requests are queued as updater functions and applied in order,
  each to the state the previous one produced. The theorems below apply them to the
  state the frame's snapshot was taken from (the component is rendered again before the
  next frame runs).
\<close>

definition applyUpdates :: "GameState \<Rightarrow> GameStatePartial list \<Rightarrow> GameState" where
  "applyUpdates gs us = foldl updateGameState gs us"

definition startGame :: "GameState \<Rightarrow> GameState" where
  "startGame prev =
     prev\<lparr>status := Playing, score := 0, level := 1, health := maxHealth prev, wave := 1,
          enemiesRemaining := 5, activePowerUps := []\<rparr>"

definition togglePause :: "GameState \<Rightarrow> GameState" where
  "togglePause prev = prev\<lparr>status := (if status prev = Playing then Paused else Playing)\<rparr>"

text \<open>
  The keyboard shortcut handler of \<open>Game3D\<close>: \<open>KeyP\<close> calls \<open>togglePause\<close> whatever the
  status is; \<open>Escape\<close> returns to the menu unless the status already is \<open>menu\<close>.
\<close>

definition handleKeyDown :: "string \<Rightarrow> GameState \<Rightarrow> GameState" where
  "handleKeyDown code gameState =
     (let s1 = (if code = ''KeyP'' then togglePause gameState else gameState)
      in if code = ''Escape''
         then (if status gameState = Menu then s1 else s1\<lparr>status := Menu\<rparr>)
         else s1)"

section \<open>The simulation (PlayerController)\<close>

text \<open>
  The refs of the component are its mutable state. Beside them the record holds what the
  source keeps outside the component: the store of mesh positions (\<open>heap\<close>), the number
  of spheres \<open>spawnPowerUp\<close> has constructed, the number of pending
  \<open>setTimeout(() => spawnPowerUp(), 1000)\<close> callbacks, and the number of calls of
  \<open>Math.random()\<close> so far. The random source is a parameter \<open>rand\<close> of the operations:
  the \<open>k\<close>-th call returns \<open>rand k\<close>. The scene graph, the camera, the rotation of the
  meshes, the explosions and the sounds belong to the renderer and the audio collaborator
  and are not part of the state.
\<close>

record Refs =
  playerRef :: "mesh option"
  bulletsRef :: "GameEntity list"
  enemiesRef :: "GameEntity list"
  powerUpsRef :: "GameEntity list"
  keysRef :: "string \<Rightarrow> bool"
  lastShotRef :: int
  waveTimerRef :: real
  enemySpawnTimerRef :: real
  bulletPoolRef :: "mesh ObjectPool option"
  enemyPoolRef :: "mesh ObjectPool option"
  heap :: heap
  spheres :: nat
  timeouts :: nat
  randomCalls :: nat

text \<open>The refs after the component has mounted and its effects have run.\<close>

definition mountedRefs :: Refs where
  "mountedRefs =
     \<lparr>playerRef = Some PlayerMesh, bulletsRef = [], enemiesRef = [], powerUpsRef = [],
      keysRef = (\<lambda>k. False), lastShotRef = 0, waveTimerRef = 0, enemySpawnTimerRef = 0,
      bulletPoolRef = Some (ObjectPool_new BulletMesh 20),
      enemyPoolRef = Some (ObjectPool_new EnemyMesh 10),
      heap = (\<lambda>m. Vector3 0 0 0), spheres = 0, timeouts = 0, randomCalls = 0\<rparr>"

text \<open>\<open>pool.release(m)\<close> guarded by \<open>if (poolRef.current)\<close>.\<close>

definition releaseTo :: "mesh ObjectPool option \<Rightarrow> mesh \<Rightarrow> mesh ObjectPool option" where
  "releaseTo p m = (case p of None \<Rightarrow> None | Some q \<Rightarrow> Some (release q m))"

subsection \<open>shootBullet, spawnEnemy, spawnPowerUp\<close>

definition shootBullet :: "int \<Rightarrow> Refs \<Rightarrow> Refs" where
  "shootBullet now r =
     (if now - lastShotRef r < 150 then r
      else
        (let r1 = r\<lparr>lastShotRef := now\<rparr> in
         case playerRef r1 of
           None \<Rightarrow> r1
         | Some player \<Rightarrow>
             (case bulletPoolRef r1 of
                None \<Rightarrow> r1
              | Some bp \<Rightarrow>
                  (let (bullet, bp1) = get bp;
                       h1 = (heap r1)(bullet := heap r1 player);
                       h2 = h1(bullet := Vector3 (vec_x (h1 bullet)) (vec_y (h1 bullet))
                                                 (vec_z (h1 bullet) + 1));
                       bulletEntity =
                         \<lparr>eid = BulletId now, mesh = bullet, position = bullet,
                          velocity = Vector3 0 0 20, ehealth = 1, emaxHealth = 1,
                          etype = Bullet, eactive = True, radius = 0.1\<rparr>
                   in r1\<lparr>bulletPoolRef := Some bp1, heap := h2,
                         bulletsRef := bulletsRef r1 @ [bulletEntity]\<rparr>))))"

definition spawnEnemy :: "(nat \<Rightarrow> real) \<Rightarrow> int \<Rightarrow> Refs \<Rightarrow> Refs" where
  "spawnEnemy rand now r =
     (case enemyPoolRef r of
        None \<Rightarrow> r
      | Some ep \<Rightarrow>
          (let (enemy, ep1) = get ep;
               k = randomCalls r;
               h1 = (heap r)(enemy := Vector3 ((rand k - 0.5) * 20)
                                              ((rand (k + 1) - 0.5) * 15) (- 30));
               enemyEntity =
                 \<lparr>eid = EnemyId now (rand (k + 2)), mesh = enemy, position = enemy,
                  velocity = Vector3 0 0 (5 + rand (k + 3) * 3), ehealth = 3,
                  emaxHealth = 3, etype = Enemy, eactive = True, radius = 0.5\<rparr>
           in r\<lparr>enemyPoolRef := Some ep1, heap := h1,
                 enemiesRef := enemiesRef r @ [enemyEntity], randomCalls := k + 4\<rparr>))"

definition spawnPowerUp :: "(nat \<Rightarrow> real) \<Rightarrow> int \<Rightarrow> Refs \<Rightarrow> Refs" where
  "spawnPowerUp rand now r =
     (let k = randomCalls r; r1 = r\<lparr>randomCalls := k + 1\<rparr> in
      if rand k > 0.1 then r1
      else
        (let powerUp = PowerUpMesh (spheres r1);
             h1 = (heap r1)(powerUp := Vector3 ((rand (k + 1) - 0.5) * 15)
                                               ((rand (k + 2) - 0.5) * 10) (- 20));
             powerUpEntity =
               \<lparr>eid = PowerupId now, mesh = powerUp, position = powerUp,
                velocity = Vector3 0 0 3, ehealth = 1, emaxHealth = 1,
                etype = Powerup, eactive = True, radius = 0.3\<rparr>
         in r1\<lparr>spheres := Suc (spheres r1), heap := h1,
                powerUpsRef := powerUpsRef r1 @ [powerUpEntity], randomCalls := k + 3\<rparr>))"

subsection \<open>The steps of the frame callback\<close>

definition movePlayer :: "(string \<Rightarrow> bool) \<Rightarrow> real \<Rightarrow> Vector3 \<Rightarrow> Vector3" where
  "movePlayer keys delta p =
     (let moveSpeed = 15 * delta;
          p1 = (if keys ''KeyW'' \<or> keys ''ArrowUp''
                then Vector3 (vec_x p) (vec_y p + moveSpeed) (vec_z p) else p);
          p2 = (if keys ''KeyS'' \<or> keys ''ArrowDown''
                then Vector3 (vec_x p1) (vec_y p1 - moveSpeed) (vec_z p1) else p1);
          p3 = (if keys ''KeyA'' \<or> keys ''ArrowLeft''
                then Vector3 (vec_x p2 - moveSpeed) (vec_y p2) (vec_z p2) else p2);
          p4 = (if keys ''KeyD'' \<or> keys ''ArrowRight''
                then Vector3 (vec_x p3 + moveSpeed) (vec_y p3) (vec_z p3) else p3)
      in clampPosition p4 (Vector3 12 8 0))"

text \<open>
  \<open>e.position.add(e.velocity.clone().multiplyScalar(delta)); e.mesh.position.copy(e.position)\<close>
\<close>

definition advance :: "real \<Rightarrow> GameEntity \<Rightarrow> heap \<Rightarrow> heap" where
  "advance delta e h =
     (let h1 = h(position e := v_add (h (position e)) (multiplyScalar (velocity e) delta))
      in h1(mesh e := h1 (position e)))"

text \<open>
  The three \<open>filter\<close> callbacks have effects (they move the entity and release culled
  meshes), so each filter is a recursion over the array that threads the refs and returns
  the entities kept.
\<close>

fun updateBullets :: "real \<Rightarrow> GameEntity list \<Rightarrow> Refs \<Rightarrow> GameEntity list \<times> Refs" where
  "updateBullets delta [] r = ([], r)"
| "updateBullets delta (bullet # rest) r =
     (let r1 = r\<lparr>heap := advance delta bullet (heap r)\<rparr> in
      if vec_z (heap r1 (position bullet)) > 50 \<or> vec_z (heap r1 (position bullet)) < - 50
      then updateBullets delta rest
             (r1\<lparr>bulletPoolRef := releaseTo (bulletPoolRef r1) (mesh bullet)\<rparr>)
      else
        (let (kept, r2) = updateBullets delta rest r1
         in (if eactive bullet then bullet # kept else kept, r2)))"

fun updateEnemies ::
  "(nat \<Rightarrow> real) \<Rightarrow> real \<Rightarrow> mesh \<Rightarrow> GameEntity list \<Rightarrow> Refs \<Rightarrow> GameEntity list \<times> Refs" where
  "updateEnemies rand delta player [] r = ([], r)"
| "updateEnemies rand delta player (enemy # rest) r =
     (let h1 = advance delta enemy (heap r);
          k = randomCalls r;
          enemy1 =
            (if rand k < 0.01
             then (let toPlayer = v_normalize (v_sub (h1 player) (h1 (position enemy)))
                   in enemy\<lparr>velocity :=
                        clampLength 0 8 (v_add (velocity enemy) (multiplyScalar toPlayer 2))\<rparr>)
             else enemy);
          r1 = r\<lparr>heap := h1, randomCalls := Suc k\<rparr>
      in if vec_z (h1 (position enemy)) > 20
         then updateEnemies rand delta player rest
                (r1\<lparr>enemyPoolRef := releaseTo (enemyPoolRef r1) (mesh enemy)\<rparr>)
         else
           (let (kept, r2) = updateEnemies rand delta player rest r1
            in (if eactive enemy1 \<and> ehealth enemy1 > 0 then enemy1 # kept else kept, r2)))"

fun updatePowerUps :: "real \<Rightarrow> GameEntity list \<Rightarrow> Refs \<Rightarrow> GameEntity list \<times> Refs" where
  "updatePowerUps delta [] r = ([], r)"
| "updatePowerUps delta (powerUp # rest) r =
     (let r1 = r\<lparr>heap := advance delta powerUp (heap r)\<rparr> in
      if vec_z (heap r1 (position powerUp)) > 20
      then updatePowerUps delta rest r1
      else
        (let (kept, r2) = updatePowerUps delta rest r1
         in (if eactive powerUp then powerUp # kept else kept, r2)))"

definition playerEntity :: "GameState \<Rightarrow> mesh \<Rightarrow> GameEntity" where
  "playerEntity gameState player =
     \<lparr>eid = PlayerId, mesh = player, position = player, velocity = Vector3 0 0 0,
      ehealth = health gameState, emaxHealth = maxHealth gameState, etype = Player,
      eactive = True, radius = 0.4\<rparr>"

subsection \<open>Collision resolution\<close>

text \<open>
  \<open>bulletsRef.current.forEach(bullet => enemiesRef.current.forEach(enemy => ...))\<close>. The
  callbacks mutate the bullet, the enemy and the pools; the inner loop is \<open>bulletVsEnemies\<close>
  (one bullet against the enemy array, front to back), the outer one
  \<open>bulletEnemyCollisions\<close>. Both return the state-update requests in the order the code
  issues them.
\<close>

fun bulletVsEnemies ::
  "GameState \<Rightarrow> GameEntity \<Rightarrow> GameEntity list \<Rightarrow> Refs
     \<Rightarrow> GameEntity \<times> GameEntity list \<times> Refs \<times> GameStatePartial list" where
  "bulletVsEnemies gameState bullet [] r = (bullet, [], r, [])"
| "bulletVsEnemies gameState bullet (enemy # rest) r =
     (if checkCollision (heap r) bullet enemy
      then
        (let enemy1 = enemy\<lparr>ehealth := ehealth enemy - 1\<rparr>;
             bullet1 = bullet\<lparr>eactive := False\<rparr>;
             dead = (ehealth enemy1 \<le> 0);
             us1 = (if dead
                    then [noChange\<lparr>p_score := Some (score gameState + 100),
                            p_enemiesRemaining := Some (enemiesRemaining gameState - 1)\<rparr>]
                    else []);
             enemy2 = (if dead then enemy1\<lparr>eactive := False\<rparr> else enemy1);
             r1 = (if dead
                   then r\<lparr>enemyPoolRef := releaseTo (enemyPoolRef r) (mesh enemy2)\<rparr>
                   else r);
             r2 = r1\<lparr>bulletPoolRef := releaseTo (bulletPoolRef r1) (mesh bullet1)\<rparr>;
             (bullet2, rest1, r3, us2) = bulletVsEnemies gameState bullet1 rest r2
         in (bullet2, enemy2 # rest1, r3, us1 @ us2))
      else
        (let (bullet2, rest1, r3, us2) = bulletVsEnemies gameState bullet rest r
         in (bullet2, enemy # rest1, r3, us2)))"

fun bulletEnemyCollisions ::
  "GameState \<Rightarrow> GameEntity list \<Rightarrow> GameEntity list \<Rightarrow> Refs
     \<Rightarrow> GameEntity list \<times> GameEntity list \<times> Refs \<times> GameStatePartial list" where
  "bulletEnemyCollisions gameState [] enemies r = ([], enemies, r, [])"
| "bulletEnemyCollisions gameState (bullet # rest) enemies r =
     (let (bullet1, enemies1, r1, us1) = bulletVsEnemies gameState bullet enemies r;
          (rest1, enemies2, r2, us2) = bulletEnemyCollisions gameState rest enemies1 r1
      in (bullet1 # rest1, enemies2, r2, us1 @ us2))"

fun playerEnemyCollisions ::
  "GameState \<Rightarrow> GameEntity \<Rightarrow> GameEntity list \<Rightarrow> Refs
     \<Rightarrow> GameEntity list \<times> Refs \<times> GameStatePartial list" where
  "playerEnemyCollisions gameState pe [] r = ([], r, [])"
| "playerEnemyCollisions gameState pe (enemy # rest) r =
     (if checkCollision (heap r) pe enemy
      then
        (let u1 = noChange\<lparr>p_health := Some (max 0 (health gameState - 1))\<rparr>;
             enemy1 = enemy\<lparr>eactive := False\<rparr>;
             r1 = r\<lparr>enemyPoolRef := releaseTo (enemyPoolRef r) (mesh enemy1)\<rparr>;
             us1 = (if health gameState \<le> 1
                    then [u1, noChange\<lparr>p_status := Some Gameover\<rparr>]
                    else [u1]);
             (rest1, r2, us2) = playerEnemyCollisions gameState pe rest r1
         in (enemy1 # rest1, r2, us1 @ us2))
      else
        (let (rest1, r2, us2) = playerEnemyCollisions gameState pe rest r
         in (enemy # rest1, r2, us2)))"

text \<open>
  \<open>powerUpsRef.current.forEach((powerUp, index) => ... powerUpsRef.current.splice(index, 1))\<close>.
  \<open>forEach\<close> reads the length once, visits the indices below it in order and skips an
  index the array no longer has; the callback removes the element at \<open>index\<close> from the
  array it is iterating, so the elements behind it move one place to the front.
\<close>

function playerPowerUpLoop ::
  "GameState \<Rightarrow> int \<Rightarrow> GameEntity \<Rightarrow> heap \<Rightarrow> nat \<Rightarrow> nat \<Rightarrow> GameEntity list
     \<Rightarrow> GameEntity list \<times> GameStatePartial list" where
  "playerPowerUpLoop gameState now pe h index len ps =
     (if index < len
      then
        (if index < length ps \<and> checkCollision h pe (ps ! index)
         then
           (let powerUp = ps ! index;
                newPowerUp = \<lparr>pid = eid powerUp, ptype = Shield, duration = 10,
                              pactive = True, startTime = now\<rparr>;
                u = noChange\<lparr>p_activePowerUps :=
                                Some (activePowerUps gameState @ [newPowerUp]),
                              p_health :=
                                Some (min (maxHealth gameState) (health gameState + 1))\<rparr>;
                (ps1, us) = playerPowerUpLoop gameState now pe h (Suc index) len
                              (take index ps @ drop (Suc index) ps)
            in (ps1, u # us))
         else playerPowerUpLoop gameState now pe h (Suc index) len ps)
      else (ps, []))"
  by pat_completeness auto
termination
  by (relation "measure (\<lambda>(gameState, now, pe, h, index, len, ps). len - index)") auto

definition playerPowerUpCollisions ::
  "GameState \<Rightarrow> int \<Rightarrow> GameEntity \<Rightarrow> heap \<Rightarrow> GameEntity list
     \<Rightarrow> GameEntity list \<times> GameStatePartial list" where
  "playerPowerUpCollisions gameState now pe h ps =
     playerPowerUpLoop gameState now pe h 0 (length ps) ps"

subsection \<open>Spawning and wave progression\<close>

definition enemySpawning :: "(nat \<Rightarrow> real) \<Rightarrow> int \<Rightarrow> GameState \<Rightarrow> real \<Rightarrow> Refs \<Rightarrow> Refs" where
  "enemySpawning rand now gameState delta r =
     (let r1 = r\<lparr>enemySpawnTimerRef := enemySpawnTimerRef r + delta\<rparr> in
      if enemySpawnTimerRef r1 > 2 - real_of_int (level gameState) * 0.1
      then
        (let r2 = (spawnEnemy rand now r1)\<lparr>enemySpawnTimerRef := 0\<rparr>;
             k = randomCalls r2;
             r3 = r2\<lparr>randomCalls := Suc k\<rparr>
         in if rand k < 0.3 then r3\<lparr>timeouts := Suc (timeouts r3)\<rparr> else r3)
      else r1)"

definition waveProgression ::
  "GameState \<Rightarrow> real \<Rightarrow> Refs \<Rightarrow> Refs \<times> GameStatePartial list" where
  "waveProgression gameState delta r =
     (if length (enemiesRef r) = 0 \<and> enemiesRemaining gameState \<le> 0
      then
        (let r1 = r\<lparr>waveTimerRef := waveTimerRef r + delta\<rparr> in
         if waveTimerRef r1 > 3
         then (r1\<lparr>waveTimerRef := 0\<rparr>,
               [noChange\<lparr>p_wave := Some (wave gameState + 1),
                          p_level := Some (level gameState + 1),
                          p_enemiesRemaining := Some (5 + wave gameState)\<rparr>])
         else (r1, []))
      else (r, []))"

subsection \<open>The frame callback\<close>

text \<open>
  \<open>frameBody\<close> is the callback of \<open>useFrame\<close> from the player movement to the enemy
  spawning, for a mounted player mesh; \<open>useFrame\<close> adds the guard at its head and the wave
  progression at its end. \<open>gameState\<close> is the snapshot of the session state the callback
  closes over; the result holds the new refs and the update requests in order.
\<close>

definition frameBody ::
  "(nat \<Rightarrow> real) \<Rightarrow> int \<Rightarrow> real \<Rightarrow> GameState \<Rightarrow> mesh \<Rightarrow> Refs \<Rightarrow> Refs \<times> GameStatePartial list" where
  "frameBody rand now delta gameState player r =
     (let r0 = r\<lparr>heap := (heap r)(player := movePlayer (keysRef r) delta (heap r player))\<rparr>;
          (bullets1, r1) = updateBullets delta (bulletsRef r0) r0;
          (enemies1, r2) =
             updateEnemies rand delta player (enemiesRef r1) (r1\<lparr>bulletsRef := bullets1\<rparr>);
          (powerUps1, r3) = updatePowerUps delta (powerUpsRef r2) (r2\<lparr>enemiesRef := enemies1\<rparr>);
          r4 = r3\<lparr>powerUpsRef := powerUps1\<rparr>;
          pe = playerEntity gameState player;
          (bullets2, enemies2, r5, us1) =
             bulletEnemyCollisions gameState (bulletsRef r4) (enemiesRef r4) r4;
          (enemies3, r6, us2) = playerEnemyCollisions gameState pe enemies2 r5;
          (powerUps2, us3) =
             playerPowerUpCollisions gameState now pe (heap r6) (powerUpsRef r6);
          r7 = r6\<lparr>bulletsRef := bullets2, enemiesRef := enemies3, powerUpsRef := powerUps2\<rparr>
      in (enemySpawning rand now gameState delta r7, us1 @ us2 @ us3))"

definition useFrame ::
  "(nat \<Rightarrow> real) \<Rightarrow> int \<Rightarrow> real \<Rightarrow> GameState \<Rightarrow> Refs \<Rightarrow> Refs \<times> GameStatePartial list" where
  "useFrame rand now delta gameState r =
     (if status gameState = Playing
      then
        (case playerRef r of
           None \<Rightarrow> (r, [])
         | Some player \<Rightarrow>
             (let (r1, us1) = frameBody rand now delta gameState player r;
                  (r2, us2) = waveProgression gameState delta r1
              in (r2, us1 @ us2)))
      else (r, []))"

subsection \<open>The update requests, by name\<close>

text \<open>
  The object literals the collision and wave code passes to \<open>onGameStateChange\<close>, named so
  that the proofs can speak about them: the request of a kill (bullet loop), the requests
  of one player hit (a health request, followed by the game-over request when the
  snapshot's health is at most 1), the request of a power-up pickup, and the request of
  the wave progression.
\<close>

definition killUpdate :: "GameState \<Rightarrow> GameStatePartial" where
  "killUpdate gs = noChange\<lparr>p_score := Some (score gs + 100),
                     p_enemiesRemaining := Some (enemiesRemaining gs - 1)\<rparr>"

definition playerHitUpdates :: "GameState \<Rightarrow> GameStatePartial list" where
  "playerHitUpdates gs =
     (if health gs \<le> 1
      then [noChange\<lparr>p_health := Some (max 0 (health gs - 1))\<rparr>,
            noChange\<lparr>p_status := Some Gameover\<rparr>]
      else [noChange\<lparr>p_health := Some (max 0 (health gs - 1))\<rparr>])"

definition pickupUpdate :: "GameState \<Rightarrow> int \<Rightarrow> GameEntity \<Rightarrow> GameStatePartial" where
  "pickupUpdate gs now powerUp =
     noChange\<lparr>p_activePowerUps := Some (activePowerUps gs @
                  [\<lparr>pid = eid powerUp, ptype = Shield, duration = 10, pactive = True,
                    startTime = now\<rparr>]),
               p_health := Some (min (maxHealth gs) (health gs + 1))\<rparr>"

definition waveUpdate :: "GameState \<Rightarrow> GameStatePartial" where
  "waveUpdate gs = noChange\<lparr>p_wave := Some (wave gs + 1), p_level := Some (level gs + 1),
                     p_enemiesRemaining := Some (5 + wave gs)\<rparr>"

section \<open>Example inputs\<close>

text \<open>
  Entities as \<open>spawnEnemy\<close>, \<open>shootBullet\<close> and \<open>spawnPowerUp\<close> build them (an enemy with a
  given mesh and health, a bullet and a power-up with a given mesh), and the states of the
  worked examples below. In every state the pools hold the meshes that are not in use.
\<close>

definition enemyOf :: "nat \<Rightarrow> int \<Rightarrow> GameEntity" where
  "enemyOf k hp =
     \<lparr>eid = EnemyId 0 0, mesh = EnemyMesh k, position = EnemyMesh k,
      velocity = Vector3 0 0 5, ehealth = hp, emaxHealth = 3, etype = Enemy,
      eactive = True, radius = 0.5\<rparr>"

definition bulletOf :: "nat \<Rightarrow> GameEntity" where
  "bulletOf k =
     \<lparr>eid = BulletId 0, mesh = BulletMesh k, position = BulletMesh k,
      velocity = Vector3 0 0 20, ehealth = 1, emaxHealth = 1, etype = Bullet,
      eactive = True, radius = 0.1\<rparr>"

definition powerUpOf :: "nat \<Rightarrow> GameEntity" where
  "powerUpOf k =
     \<lparr>eid = PowerupId 0, mesh = PowerUpMesh k, position = PowerUpMesh k,
      velocity = Vector3 0 0 3, ehealth = 1, emaxHealth = 1, etype = Powerup,
      eactive = True, radius = 0.3\<rparr>"

definition playingState :: GameState where
  "playingState = startGame initialGameState"

text \<open>A shield effect granted at time 0; at time 20000 it is 20 s old, twice its duration.\<close>

definition oldShield :: PowerUp where
  "oldShield = \<lparr>pid = PowerupId 0, ptype = Shield, duration = 10, pactive = True,
                startTime = 0\<rparr>"

text \<open>One enemy half a unit in front of the player.\<close>

definition enemyAtPlayer :: Refs where
  "enemyAtPlayer = mountedRefs
     \<lparr>enemiesRef := [enemyOf 9 3],
      enemyPoolRef := Some \<lparr>pool = map EnemyMesh [0..<9], createFn = EnemyMesh,
                             constructed = 10\<rparr>,
      heap := (\<lambda>m. Vector3 0 0 0)(EnemyMesh 9 := Vector3 0 0 (1/2))\<rparr>"

text \<open>One bullet at \<open>z = 1\<close> and two enemies with full health within its reach.\<close>

definition oneBulletTwoEnemies :: Refs where
  "oneBulletTwoEnemies = mountedRefs
     \<lparr>bulletsRef := [bulletOf 19],
      enemiesRef := [enemyOf 9 3, enemyOf 8 3],
      lastShotRef := 1000,
      bulletPoolRef := Some \<lparr>pool = map BulletMesh [0..<19], createFn = BulletMesh,
                              constructed = 20\<rparr>,
      enemyPoolRef := Some \<lparr>pool = map EnemyMesh [0..<8], createFn = EnemyMesh,
                             constructed = 10\<rparr>,
      heap := (\<lambda>m. Vector3 0 0 0)(BulletMesh 19 := Vector3 0 0 1,
                EnemyMesh 9 := Vector3 0 0 (6/5), EnemyMesh 8 := Vector3 0 0 (7/5))\<rparr>"

text \<open>
  Two bullets at the same place (two shots 150 ms apart with no frame between them: both
  start at the player's position moved by 1 along z) and one enemy with health 1 within
  their reach.
\<close>

definition twoBulletsOneEnemy :: Refs where
  "twoBulletsOneEnemy = mountedRefs
     \<lparr>bulletsRef := [bulletOf 19, bulletOf 18],
      enemiesRef := [enemyOf 9 1],
      lastShotRef := 1150,
      bulletPoolRef := Some \<lparr>pool = map BulletMesh [0..<18], createFn = BulletMesh,
                              constructed = 20\<rparr>,
      enemyPoolRef := Some \<lparr>pool = map EnemyMesh [0..<9], createFn = EnemyMesh,
                             constructed = 10\<rparr>,
      heap := (\<lambda>m. Vector3 0 0 0)(BulletMesh 19 := Vector3 0 0 1,
                BulletMesh 18 := Vector3 0 0 1, EnemyMesh 9 := Vector3 0 0 (6/5))\<rparr>"

text \<open>One power-up a fifth of a unit in front of the player.\<close>

definition powerUpAtPlayer :: Refs where
  "powerUpAtPlayer = mountedRefs
     \<lparr>powerUpsRef := [powerUpOf 0], spheres := 1,
      heap := (\<lambda>m. Vector3 0 0 0)(PowerUpMesh 0 := Vector3 0 0 (1/5))\<rparr>"

declare playerPowerUpLoop.simps [simp del]

section \<open>Collision test\<close>

lemma distanceToSquared_sym: "distanceToSquared a b = distanceToSquared b a"
  by (simp add: distanceToSquared_def Let_def) (simp add: algebra_simps)

text \<open>
  C9. \<open>checkCollision\<close> is true exactly when the Euclidean distance between the two
  positions is strictly less than the sum of the two radii, and it is symmetric in its
  arguments. The function returns the boolean only: it reads the two position vectors and
  the two radii and has no way to change the store or the entities.
\<close>

theorem checkCollision_euclidean_symmetric:
  "checkCollision h a b =
     (sqrt ((vec_x (h (position a)) - vec_x (h (position b)))\<^sup>2
          + (vec_y (h (position a)) - vec_y (h (position b)))\<^sup>2
          + (vec_z (h (position a)) - vec_z (h (position b)))\<^sup>2)
        < radius a + radius b)
   \<and> checkCollision h a b = checkCollision h b a"
proof
  show "checkCollision h a b =
     (sqrt ((vec_x (h (position a)) - vec_x (h (position b)))\<^sup>2
          + (vec_y (h (position a)) - vec_y (h (position b)))\<^sup>2
          + (vec_z (h (position a)) - vec_z (h (position b)))\<^sup>2)
        < radius a + radius b)"
    by (simp add: checkCollision_def distanceTo_def distanceToSquared_def Let_def
        power2_eq_square)
next
  have "distanceTo (h (position a)) (h (position b)) = distanceTo (h (position b)) (h (position a))"
    by (simp add: distanceTo_def distanceToSquared_sym)
  then show "checkCollision h a b = checkCollision h b a"
    by (simp add: checkCollision_def Let_def add.commute)
qed

section \<open>Object pool\<close>

lemma releaseAll_pool: "releaseAll rs p = p\<lparr>pool := pool p @ rs\<rparr>"
  by (induction rs arbitrary: p) (simp_all add: release_def)

lemma get_constructed:
  "constructed (snd (get p)) = (if pool p = [] then Suc (constructed p) else constructed p)"
  by (simp add: get_def)

lemma acquireN_Suc:
  "acquireN (Suc n) p =
     (fst (get p) # fst (acquireN n (snd (get p))), snd (acquireN n (snd (get p))))"
  by (simp add: case_prod_beta)

lemma acquireN_constructed_le:
  "constructed p \<le> constructed (snd (acquireN n p))
   \<and> constructed (snd (acquireN n p)) \<le> constructed p + n"
proof (induction n arbitrary: p)
  case 0
  then show ?case by simp
next
  case (Suc n)
  have c: "constructed p \<le> constructed (snd (get p))
           \<and> constructed (snd (get p)) \<le> Suc (constructed p)"
    by (simp add: get_constructed)
  from Suc.IH [of "snd (get p)"] c show ?case
    by (simp add: acquireN_Suc del: acquireN.simps(2))
qed

text \<open>With at least \<open>n\<close> free handles, \<open>n\<close> acquisitions pop them and construct nothing.\<close>

lemma acquireN_reuse:
  "length rs = n \<Longrightarrow> acquireN n (p\<lparr>pool := xs @ rs\<rparr>) = (rev rs, p\<lparr>pool := xs\<rparr>)"
proof (induction n arbitrary: rs)
  case 0
  then show ?case by simp
next
  case (Suc n)
  then obtain ys y where rs: "rs = ys @ [y]" and len: "length ys = n"
    by (metis length_Suc_conv_rev)
  have "get (p\<lparr>pool := xs @ rs\<rparr>) = (y, p\<lparr>pool := xs @ ys\<rparr>)"
    by (simp add: get_def rs butlast_append)
  with Suc.IH [OF len] show ?case
    by (simp add: rs)
qed

text \<open>
  C8. Start from any pool \<open>p\<close>. Acquire \<open>n\<close> handles, release \<open>n\<close> handles \<open>rs\<close> (the
  acquired ones, in any order), acquire \<open>n\<close> handles again. The factory has then been
  called at most \<open>n\<close> times in total, the second batch of acquisitions has called it not
  once, and the second batch hands out the released handles, last released first.
\<close>

theorem pool_reuse:
  assumes "length rs = n"
  shows "constructed (snd (acquireN n (releaseAll rs (snd (acquireN n p))))) \<le> constructed p + n
       \<and> constructed (snd (acquireN n (releaseAll rs (snd (acquireN n p)))))
           = constructed (snd (acquireN n p))
       \<and> fst (acquireN n (releaseAll rs (snd (acquireN n p)))) = rev rs"
proof -
  define p1 where "p1 = snd (acquireN n p)"
  have "acquireN n (releaseAll rs p1) = (rev rs, p1\<lparr>pool := pool p1\<rparr>)"
    using acquireN_reuse [OF assms, where p = p1 and xs = "pool p1"]
    by (simp add: releaseAll_pool)
  then show ?thesis
    using acquireN_constructed_le [of p n] by (simp add: p1_def)
qed

theorem pool_reuse_witness:
  "length (fst (acquireN 2 (ObjectPool_new BulletMesh 1))) = 2
   \<and> fst (acquireN 2 (ObjectPool_new BulletMesh 1)) = [BulletMesh 0, BulletMesh 1]
   \<and> constructed (snd (acquireN 2 (releaseAll [BulletMesh 0, BulletMesh 1]
        (snd (acquireN 2 (ObjectPool_new BulletMesh 1)))))) \<le> 1 + 2
   \<and> constructed (snd (acquireN 2 (releaseAll [BulletMesh 0, BulletMesh 1]
        (snd (acquireN 2 (ObjectPool_new BulletMesh 1)))))) = 2"
proof -
  have a: "acquireN 2 (ObjectPool_new BulletMesh 1) =
             ([BulletMesh 0, BulletMesh 1],
              \<lparr>pool = [], createFn = BulletMesh, constructed = 2\<rparr>)"
    by (simp add: numeral_2_eq_2 ObjectPool_new_def get_def)
  have l: "length [BulletMesh 0, BulletMesh 1] = 2" by simp
  from pool_reuse [OF l, of "ObjectPool_new BulletMesh 1"] a show ?thesis
    by (simp add: ObjectPool_new_def)
qed

section \<open>Pause command\<close>

lemma togglePause_status:
  "status (togglePause gs) = (if status gs = Playing then Paused else Playing)"
  by (simp add: togglePause_def)

text \<open>
  C4. The claim is that \<open>togglePause\<close> leaves the status alone when it is \<open>menu\<close> or
  \<open>gameover\<close>. The code sends every status but \<open>playing\<close> to \<open>playing\<close>: pressing P on the
  game-over screen (health 0) resumes play without the reset that \<open>startGame\<close> does, and
  pressing P in the menu starts play.
\<close>

theorem togglePause_resumes_gameover:
  "status (handleKeyDown ''KeyP'' (initialGameState\<lparr>status := Gameover, health := 0\<rparr>)) = Playing
   \<and> health (handleKeyDown ''KeyP'' (initialGameState\<lparr>status := Gameover, health := 0\<rparr>)) = 0
   \<and> status (togglePause (initialGameState\<lparr>status := Gameover, health := 0\<rparr>)) = Playing
   \<and> status (togglePause initialGameState) = Playing"
  by (simp add: handleKeyDown_def togglePause_def initialGameState_def)

section \<open>Fire requests\<close>

lemma shootBullet_limited: "now - lastShotRef r < 150 \<Longrightarrow> shootBullet now r = r"
  by (simp add: shootBullet_def)

lemma shootBullet_fires:
  assumes "150 \<le> now - lastShotRef r" and "playerRef r = Some player"
    and "bulletPoolRef r = Some bp"
  shows "shootBullet now r =
     r\<lparr>lastShotRef := now,
       bulletPoolRef := Some (snd (get bp)),
       heap := (heap r)(fst (get bp) :=
                 Vector3 (vec_x (heap r player)) (vec_y (heap r player))
                         (vec_z (heap r player) + 1)),
       bulletsRef := bulletsRef r @
         [\<lparr>eid = BulletId now, mesh = fst (get bp), position = fst (get bp),
           velocity = Vector3 0 0 20, ehealth = 1, emaxHealth = 1, etype = Bullet,
           eactive = True, radius = 0.1\<rparr>]\<rparr>"
  using assms by (simp add: shootBullet_def Let_def case_prod_beta)

lemma shootBullet_uninit:
  assumes "150 \<le> now - lastShotRef r" and "playerRef r = None \<or> bulletPoolRef r = None"
  shows "shootBullet now r = r\<lparr>lastShotRef := now\<rparr>"
  using assms by (auto simp add: shootBullet_def Let_def split: option.splits)

text \<open>
  C6 (amended). With the player reference and the bullet pool initialised, a fire request
  at time \<open>now\<close> creates a bullet exactly when at least 150 ms have passed since
  \<open>lastShotRef\<close>, the time of the last request that passed the rate limit. A request that
  succeeds sets \<open>lastShotRef\<close> to \<open>now\<close> and appends exactly one bullet entity, with
  velocity \<open>(0, 0, 20)\<close>, whose position is the player's position moved by 1 along z; a
  request that fails changes nothing. After a successful request at \<open>t1\<close>, a second
  request at \<open>t2\<close> leaves one new bullet when \<open>t2 - t1 < 150\<close> and two otherwise (so two
  for 151 ms).
\<close>

theorem shootBullet_fire_contract:
  assumes "playerRef r = Some player" and "bulletPoolRef r = Some bp"
  shows "(length (bulletsRef (shootBullet now r)) = Suc (length (bulletsRef r)))
           = (150 \<le> now - lastShotRef r)
       \<and> (if 150 \<le> now - lastShotRef r
          then lastShotRef (shootBullet now r) = now
             \<and> bulletsRef (shootBullet now r) = bulletsRef r @
                 [\<lparr>eid = BulletId now, mesh = fst (get bp), position = fst (get bp),
                   velocity = Vector3 0 0 20, ehealth = 1, emaxHealth = 1, etype = Bullet,
                   eactive = True, radius = 0.1\<rparr>]
             \<and> heap (shootBullet now r) (fst (get bp)) =
                 Vector3 (vec_x (heap r player)) (vec_y (heap r player))
                         (vec_z (heap r player) + 1)
          else shootBullet now r = r)
       \<and> (150 \<le> t1 - lastShotRef r \<longrightarrow>
            length (bulletsRef (shootBullet t2 (shootBullet t1 r)))
              = length (bulletsRef r) + (if t2 - t1 < 150 then 1 else 2))"
proof (intro conjI)
  show "(length (bulletsRef (shootBullet now r)) = Suc (length (bulletsRef r)))
           = (150 \<le> now - lastShotRef r)"
  proof (cases "150 \<le> now - lastShotRef r")
    case True
    then show ?thesis by (simp add: shootBullet_fires [OF True assms])
  next
    case False
    then show ?thesis by (simp add: shootBullet_limited)
  qed
next
  show "if 150 \<le> now - lastShotRef r
          then lastShotRef (shootBullet now r) = now
             \<and> bulletsRef (shootBullet now r) = bulletsRef r @
                 [\<lparr>eid = BulletId now, mesh = fst (get bp), position = fst (get bp),
                   velocity = Vector3 0 0 20, ehealth = 1, emaxHealth = 1, etype = Bullet,
                   eactive = True, radius = 0.1\<rparr>]
             \<and> heap (shootBullet now r) (fst (get bp)) =
                 Vector3 (vec_x (heap r player)) (vec_y (heap r player))
                         (vec_z (heap r player) + 1)
          else shootBullet now r = r"
  proof (cases "150 \<le> now - lastShotRef r")
    case True
    then show ?thesis by (simp add: shootBullet_fires [OF True assms])
  next
    case False
    then show ?thesis by (simp add: shootBullet_limited)
  qed
next
  show "150 \<le> t1 - lastShotRef r \<longrightarrow>
            length (bulletsRef (shootBullet t2 (shootBullet t1 r)))
              = length (bulletsRef r) + (if t2 - t1 < 150 then 1 else 2)"
  proof
    assume first: "150 \<le> t1 - lastShotRef r"
    define r1 where "r1 = shootBullet t1 r"
    have r1: "lastShotRef r1 = t1" "playerRef r1 = Some player"
      "bulletPoolRef r1 = Some (snd (get bp))"
      "length (bulletsRef r1) = Suc (length (bulletsRef r))"
      by (simp_all add: r1_def shootBullet_fires [OF first assms] assms)
    show "length (bulletsRef (shootBullet t2 (shootBullet t1 r)))
              = length (bulletsRef r) + (if t2 - t1 < 150 then 1 else 2)"
    proof (cases "t2 - t1 < 150")
      case True
      then have "shootBullet t2 r1 = r1" by (simp add: shootBullet_limited r1)
      with True r1 show ?thesis by (simp add: r1_def)
    next
      case False
      then have s: "150 \<le> t2 - lastShotRef r1" by (simp add: r1)
      from False r1 show ?thesis
        by (simp add: shootBullet_fires [OF s r1(2) r1(3)] r1_def [symmetric])
    qed
  qed
qed

theorem shootBullet_fire_contract_witness:
  "playerRef mountedRefs = Some PlayerMesh
   \<and> bulletPoolRef mountedRefs = Some (ObjectPool_new BulletMesh 20)
   \<and> length (bulletsRef (shootBullet 1000 mountedRefs)) = 1
   \<and> lastShotRef (shootBullet 1000 mountedRefs) = 1000
   \<and> length (bulletsRef (shootBullet 1100 (shootBullet 1000 mountedRefs))) = 1
   \<and> length (bulletsRef (shootBullet 1151 (shootBullet 1000 mountedRefs))) = 2"
proof -
  have p: "playerRef mountedRefs = Some PlayerMesh"
    and b: "bulletPoolRef mountedRefs = Some (ObjectPool_new BulletMesh 20)"
    and l: "lastShotRef mountedRefs = 0" and n: "bulletsRef mountedRefs = []"
    by (simp_all add: mountedRefs_def)
  from shootBullet_fire_contract [OF p b, of 1000 1000 1100]
       shootBullet_fire_contract [OF p b, of 1000 1000 1151]
  show ?thesis by (simp add: p b l n)
qed

text \<open>
  C10. A fire request that passes the rate limit while the player reference or the bullet
  pool is missing overwrites \<open>lastShotRef\<close> and creates no bullet; a request less than
  150 ms later is rejected, even when the player and the pool have been initialised in
  between, although no bullet was ever created.
\<close>

theorem shootBullet_uninitialised_consumes_timer:
  assumes "150 \<le> now - lastShotRef r"
    and "playerRef r = None \<or> bulletPoolRef r = None"
    and "now2 - now < 150"
  shows "shootBullet now r = r\<lparr>lastShotRef := now\<rparr>
       \<and> bulletsRef (shootBullet now r) = bulletsRef r
       \<and> shootBullet now2 ((shootBullet now r)\<lparr>playerRef := pl, bulletPoolRef := bp\<rparr>)
           = (shootBullet now r)\<lparr>playerRef := pl, bulletPoolRef := bp\<rparr>"
  using assms by (simp add: shootBullet_uninit shootBullet_limited)

theorem shootBullet_uninitialised_consumes_timer_witness:
  "shootBullet 1000 (mountedRefs\<lparr>playerRef := None\<rparr>)
     = mountedRefs\<lparr>playerRef := None, lastShotRef := 1000\<rparr>
   \<and> bulletsRef (shootBullet 1100
        ((shootBullet 1000 (mountedRefs\<lparr>playerRef := None\<rparr>))\<lparr>playerRef := Some PlayerMesh,
           bulletPoolRef := Some (ObjectPool_new BulletMesh 20)\<rparr>)) = []"
proof -
  define r0 where "r0 = mountedRefs\<lparr>playerRef := None\<rparr>"
  have a: "150 \<le> 1000 - lastShotRef r0"
    by (simp add: r0_def mountedRefs_def)
  have b: "playerRef r0 = None \<or> bulletPoolRef r0 = None"
    by (simp add: r0_def)
  have c: "(1100::int) - 1000 < 150" by simp
  note t = shootBullet_uninitialised_consumes_timer [OF a b c,
      where pl = "Some PlayerMesh" and bp = "Some (ObjectPool_new BulletMesh 20)"]
  have 1: "shootBullet 1000 r0 = r0\<lparr>lastShotRef := 1000\<rparr>"
    using t by (rule conjunct1)
  have 2: "shootBullet 1100 ((shootBullet 1000 r0)\<lparr>playerRef := Some PlayerMesh,
             bulletPoolRef := Some (ObjectPool_new BulletMesh 20)\<rparr>)
           = (shootBullet 1000 r0)\<lparr>playerRef := Some PlayerMesh,
             bulletPoolRef := Some (ObjectPool_new BulletMesh 20)\<rparr>"
    using t by (rule conjunct2 [THEN conjunct2])
  have 3: "bulletsRef r0 = []" by (simp add: r0_def mountedRefs_def)
  have 4: "bulletsRef (shootBullet 1100 ((shootBullet 1000 r0)\<lparr>playerRef := Some PlayerMesh,
             bulletPoolRef := Some (ObjectPool_new BulletMesh 20)\<rparr>)) = []"
    by (simp only: 2) (simp add: 1 3)
  from 1 4 show ?thesis unfolding r0_def by simp
qed

text \<open>
  C6 as stated fails where the player reference is missing: 1000 ms have passed since the
  last fire, and the request creates no bullet.
\<close>

theorem shootBullet_uninitialised_counterexample:
  "150 \<le> 1000 - lastShotRef (mountedRefs\<lparr>playerRef := None\<rparr>)
   \<and> bulletsRef (shootBullet 1000 (mountedRefs\<lparr>playerRef := None\<rparr>)) = []
   \<and> \<not> ((length (bulletsRef (shootBullet 1000 (mountedRefs\<lparr>playerRef := None\<rparr>)))
           = Suc (length (bulletsRef (mountedRefs\<lparr>playerRef := None\<rparr>))))
          = (150 \<le> 1000 - lastShotRef (mountedRefs\<lparr>playerRef := None\<rparr>)))"
  by (simp add: mountedRefs_def shootBullet_def)

section \<open>The frame callback: what the passes change and request\<close>

lemma updateBullets_timer: "waveTimerRef (snd (updateBullets d bs r)) = waveTimerRef r"
  by (induction bs arbitrary: r) (simp_all add: Let_def case_prod_beta)

lemma updateEnemies_timer: "waveTimerRef (snd (updateEnemies rand d pl es r)) = waveTimerRef r"
  by (induction es arbitrary: r) (simp_all add: Let_def case_prod_beta)

lemma updatePowerUps_timer: "waveTimerRef (snd (updatePowerUps d ps r)) = waveTimerRef r"
  by (induction ps arbitrary: r) (simp_all add: Let_def case_prod_beta)

lemma bulletVsEnemies_timer:
  "waveTimerRef (fst (snd (snd (bulletVsEnemies gs b es r)))) = waveTimerRef r"
  by (induction es arbitrary: b r) (simp_all add: Let_def case_prod_beta)

lemma bulletVsEnemies_updates:
  "set (snd (snd (snd (bulletVsEnemies gs b es r)))) \<subseteq> {killUpdate gs}"
  by (induction es arbitrary: b r) (auto simp add: Let_def case_prod_beta killUpdate_def)

lemma bulletEnemyCollisions_timer:
  "waveTimerRef (fst (snd (snd (bulletEnemyCollisions gs bs es r)))) = waveTimerRef r"
  by (induction bs arbitrary: es r) (simp_all add: Let_def case_prod_beta bulletVsEnemies_timer)

lemma bulletEnemyCollisions_updates:
  "set (snd (snd (snd (bulletEnemyCollisions gs bs es r)))) \<subseteq> {killUpdate gs}"
proof (induction bs arbitrary: es r)
  case Nil
  then show ?case by simp
next
  case (Cons b bs)
  show ?case
    using bulletVsEnemies_updates [of gs b es r] Cons.IH
    by (simp add: Let_def case_prod_beta)
qed

lemma playerPowerUpLoop_done:
  "\<not> i < len \<Longrightarrow> playerPowerUpLoop gs now pe h i len ps = (ps, [])"
  by (subst playerPowerUpLoop.simps) simp

lemma playerPowerUpLoop_miss:
  "i < len \<Longrightarrow> \<not> (i < length ps \<and> checkCollision h pe (ps ! i)) \<Longrightarrow>
   playerPowerUpLoop gs now pe h i len ps = playerPowerUpLoop gs now pe h (Suc i) len ps"
  by (subst playerPowerUpLoop.simps) auto

lemma playerPowerUpLoop_hit:
  "i < len \<Longrightarrow> i < length ps \<and> checkCollision h pe (ps ! i) \<Longrightarrow>
   playerPowerUpLoop gs now pe h i len ps =
     (fst (playerPowerUpLoop gs now pe h (Suc i) len (take i ps @ drop (Suc i) ps)),
      pickupUpdate gs now (ps ! i)
        # snd (playerPowerUpLoop gs now pe h (Suc i) len (take i ps @ drop (Suc i) ps)))"
  by (subst playerPowerUpLoop.simps) (simp add: Let_def case_prod_beta pickupUpdate_def)

lemma playerPowerUpLoop_updates:
  "set (snd (playerPowerUpLoop gs now pe h i len ps)) \<subseteq> range (pickupUpdate gs now)"
proof (induction gs now pe h i len ps rule: playerPowerUpLoop.induct)
  case (1 gs now pe h i len ps)
  show ?case
  proof (cases "i < len")
    case False
    then show ?thesis by (simp add: playerPowerUpLoop_done)
  next
    case True
    show ?thesis
    proof (cases "i < length ps \<and> checkCollision h pe (ps ! i)")
      case hit: True
      have "set (snd (playerPowerUpLoop gs now pe h (Suc i) len (take i ps @ drop (Suc i) ps)))
            \<subseteq> range (pickupUpdate gs now)"
        using "1.IH"(1) [OF True hit refl refl refl] by simp
      then show ?thesis by (simp add: playerPowerUpLoop_hit [OF True hit])
    next
      case miss: False
      from "1.IH"(2) [OF True miss] show ?thesis
        by (simp only: playerPowerUpLoop_miss [OF True miss])
    qed
  qed
qed


lemma playerEnemyCollisions_result:
  "playerEnemyCollisions gs pe es r =
     (map (\<lambda>e. if checkCollision (heap r) pe e then e\<lparr>eactive := False\<rparr> else e) es,
      r\<lparr>enemyPoolRef := foldl releaseTo (enemyPoolRef r)
            (map mesh (filter (checkCollision (heap r) pe) es))\<rparr>,
      concat (map (\<lambda>e. if checkCollision (heap r) pe e then playerHitUpdates gs else []) es))"
proof (induction es arbitrary: r)
  case Nil
  then show ?case by simp
next
  case (Cons e es)
  show ?case
    by (simp add: Cons.IH Let_def playerHitUpdates_def)
qed

lemma playerEnemyCollisions_timer:
  "waveTimerRef (fst (snd (playerEnemyCollisions gs pe es r))) = waveTimerRef r"
  by (simp add: playerEnemyCollisions_result)

lemma playerEnemyCollisions_updates:
  "set (snd (snd (playerEnemyCollisions gs pe es r))) \<subseteq> set (playerHitUpdates gs)"
  by (auto simp add: playerEnemyCollisions_result split: if_splits)

lemma spawnEnemy_timer: "waveTimerRef (spawnEnemy rand now r) = waveTimerRef r"
  by (simp add: spawnEnemy_def Let_def case_prod_beta split: option.splits)

lemma enemySpawning_timer: "waveTimerRef (enemySpawning rand now gs d r) = waveTimerRef r"
  by (simp add: enemySpawning_def Let_def spawnEnemy_timer)

lemma frameBody_timer: "waveTimerRef (fst (frameBody rand now d gs pl r)) = waveTimerRef r"
  by (simp add: frameBody_def Let_def case_prod_beta enemySpawning_timer
      playerEnemyCollisions_timer bulletEnemyCollisions_timer updatePowerUps_timer
      updateEnemies_timer updateBullets_timer)

lemma frameBody_updates:
  "set (snd (frameBody rand now d gs pl r))
     \<subseteq> {killUpdate gs} \<union> set (playerHitUpdates gs) \<union> range (pickupUpdate gs now)"
proof -
  have "set (snd (frameBody rand now d gs pl r)) \<subseteq>
        {killUpdate gs} \<union> (set (playerHitUpdates gs) \<union> range (pickupUpdate gs now))"
    unfolding frameBody_def Let_def case_prod_beta snd_conv set_append playerPowerUpCollisions_def
    by (intro Un_mono bulletEnemyCollisions_updates playerEnemyCollisions_updates
        playerPowerUpLoop_updates)
  then show ?thesis by (simp add: Un_assoc)
qed

lemma waveProgression_cases:
  "waveProgression gs d r =
     (if length (enemiesRef r) = 0 \<and> enemiesRemaining gs \<le> 0
      then (if waveTimerRef r + d > 3
            then (r\<lparr>waveTimerRef := 0\<rparr>, [waveUpdate gs])
            else (r\<lparr>waveTimerRef := waveTimerRef r + d\<rparr>, []))
      else (r, []))"
  by (simp add: waveProgression_def Let_def waveUpdate_def)

lemma useFrame_playing:
  "status gs = Playing \<Longrightarrow> playerRef r = Some pl \<Longrightarrow>
   useFrame rand now d gs r =
     (fst (waveProgression gs d (fst (frameBody rand now d gs pl r))),
      snd (frameBody rand now d gs pl r)
        @ snd (waveProgression gs d (fst (frameBody rand now d gs pl r))))"
  by (simp add: useFrame_def Let_def case_prod_beta)

lemma useFrame_idle:
  "status gs \<noteq> Playing \<or> playerRef r = None \<Longrightarrow> useFrame rand now d gs r = (r, [])"
  by (auto simp add: useFrame_def)


lemma updateGameState_fields:
  "status (updateGameState s u) = spread (status s) (p_status u)"
  "health (updateGameState s u) = spread (health s) (p_health u)"
  "wave (updateGameState s u) = spread (wave s) (p_wave u)"
  "level (updateGameState s u) = spread (level s) (p_level u)"
  "enemiesRemaining (updateGameState s u) = spread (enemiesRemaining s) (p_enemiesRemaining u)"
  "activePowerUps (updateGameState s u) = spread (activePowerUps s) (p_activePowerUps u)"
  "score (updateGameState s u) = spread (score s) (p_score u)"
  by (simp_all add: updateGameState_def)

lemma foldl_updateGameState_invariant:
  "P s \<Longrightarrow> (\<And>(s::GameState) u. u \<in> set us \<Longrightarrow> P s \<Longrightarrow> P (updateGameState s u))
   \<Longrightarrow> P (foldl updateGameState s us)"
  by (induction us arbitrary: s) simp_all

lemma killUpdate_fields:
  "p_wave (killUpdate gs) = None" "p_level (killUpdate gs) = None"
  "p_activePowerUps (killUpdate gs) = None"
  by (simp_all add: killUpdate_def noChange_def)

lemma playerHitUpdates_fields:
  assumes "u \<in> set (playerHitUpdates gs)"
  shows "p_wave u = None" "p_level u = None" "p_activePowerUps u = None"
proof -
  from assms have "u = noChange\<lparr>p_health := Some (max 0 (health gs - 1))\<rparr>
                   \<or> u = noChange\<lparr>p_status := Some Gameover\<rparr>"
    by (simp add: playerHitUpdates_def split: if_splits)
  then show "p_wave u = None" "p_level u = None" "p_activePowerUps u = None"
    by (auto simp add: noChange_def)
qed

lemma pickupUpdate_fields:
  "p_wave (pickupUpdate gs now pu) = None" "p_level (pickupUpdate gs now pu) = None"
  "p_activePowerUps (pickupUpdate gs now pu) = Some (activePowerUps gs @
     [\<lparr>pid = eid pu, ptype = Shield, duration = 10, pactive = True, startTime = now\<rparr>])"
  by (simp_all add: pickupUpdate_def noChange_def)

lemma body_update_fields:
  assumes "u \<in> {killUpdate gs} \<union> set (playerHitUpdates gs) \<union> range (pickupUpdate gs now)"
  shows "p_wave u = None" and "p_level u = None"
    and "p_activePowerUps u = None
         \<or> (\<exists>pu::GameEntity. p_activePowerUps u = Some (activePowerUps gs @
               [\<lparr>pid = eid pu, ptype = Shield, duration = 10, pactive = True,
                 startTime = now\<rparr>]))"
proof -
  from assms consider "u = killUpdate gs" | "u \<in> set (playerHitUpdates gs)"
    | pu where "u = pickupUpdate gs now pu"
    by blast
  then have "p_wave u = None \<and> p_level u = None
     \<and> (p_activePowerUps u = None
         \<or> (\<exists>pu::GameEntity. p_activePowerUps u = Some (activePowerUps gs @
               [\<lparr>pid = eid pu, ptype = Shield, duration = 10, pactive = True,
                 startTime = now\<rparr>])))"
  proof cases
    case 1
    then show ?thesis by (simp add: killUpdate_fields)
  next
    case 2
    then show ?thesis by (simp add: playerHitUpdates_fields)
  next
    case 3
    show ?thesis
      unfolding 3 pickupUpdate_fields by (intro conjI disjI2 exI [of _ pu]) simp_all
  qed
  then show "p_wave u = None" and "p_level u = None"
    and "p_activePowerUps u = None
         \<or> (\<exists>pu::GameEntity. p_activePowerUps u = Some (activePowerUps gs @
               [\<lparr>pid = eid pu, ptype = Shield, duration = 10, pactive = True,
                 startTime = now\<rparr>]))"
    by blast+
qed

lemma body_updates_keep_wave:
  assumes "set us \<subseteq> {killUpdate gs} \<union> set (playerHitUpdates gs) \<union> range (pickupUpdate gs now)"
  shows "wave (foldl updateGameState s us) = wave s \<and> level (foldl updateGameState s us) = level s"
proof (rule foldl_updateGameState_invariant [where P = "\<lambda>t::GameState. wave t = wave s \<and> level t = level s"])
  show "wave s = wave s \<and> level s = level s" by simp
next
  fix t :: GameState and u
  assume "u \<in> set us" and t: "wave t = wave s \<and> level t = level s"
  with assms have "u \<in> {killUpdate gs} \<union> set (playerHitUpdates gs) \<union> range (pickupUpdate gs now)"
    by blast
  then have "p_wave u = None" "p_level u = None" by (rule body_update_fields)+
  with t show "wave (updateGameState t u) = wave s \<and> level (updateGameState t u) = level s"
    by (simp add: updateGameState_fields spread_def)
qed

section \<open>Evaluating the frame on concrete states\<close>

lemma sqrt_less_iff_square: "0 < y \<Longrightarrow> (sqrt x < y) = (x < y\<^sup>2)"
proof -
  assume y: "0 < y"
  have "(sqrt x < sqrt (y\<^sup>2)) = (x < y\<^sup>2)" by (rule real_sqrt_less_iff)
  with y show ?thesis by simp
qed

lemma checkCollision_squared:
  "0 < radius a + radius b \<Longrightarrow>
   checkCollision h a b
     = (distanceToSquared (h (position a)) (h (position b)) < (radius a + radius b)\<^sup>2)"
  by (simp add: checkCollision_def distanceTo_def Let_def sqrt_less_iff_square)

lemmas frame_eval = useFrame_def frameBody_def advance_def v_add_def multiplyScalar_def
  movePlayer_def clampPosition_def playerEntity_def checkCollision_squared distanceToSquared_def
  enemySpawning_def waveProgression_def releaseTo_def release_def Let_def
  playerPowerUpCollisions_def playerPowerUpLoop.simps power2_eq_square
  mountedRefs_def playingState_def startGame_def initialGameState_def
  bulletOf_def enemyOf_def powerUpOf_def

section \<open>Player-enemy collisions\<close>

lemma playerHitUpdates_apply:
  "health (foldl updateGameState s (playerHitUpdates gs)) = max 0 (health gs - 1)"
  "status (foldl updateGameState s (playerHitUpdates gs))
     = (if health gs \<le> 1 then Gameover else status s)"
  by (simp_all add: playerHitUpdates_def updateGameState_fields spread_def noChange_def)

lemma hits_health:
  "health (foldl updateGameState s
      (concat (map (\<lambda>e. if c e then playerHitUpdates gs else []) es)))
     = (if list_ex c es then max 0 (health gs - 1) else health s)"
proof (induction es arbitrary: s)
  case Nil
  then show ?case by simp
next
  case (Cons e es)
  show ?case
    by (simp add: Cons.IH playerHitUpdates_apply)
qed

lemma hits_status:
  "status (foldl updateGameState s
      (concat (map (\<lambda>e. if c e then playerHitUpdates gs else []) es)))
     = (if list_ex c es \<and> health gs \<le> 1 then Gameover else status s)"
proof (induction es arbitrary: s)
  case Nil
  then show ?case by simp
next
  case (Cons e es)
  show ?case
    by (simp add: Cons.IH playerHitUpdates_apply)
qed

text \<open>
  C1 (amended). While playing, when at least one enemy of the store intersects the
  player in the player-enemy pass, the pass leaves the health at \<open>max 0 (h - 1)\<close>, where
  \<open>h\<close> is the health of the frame's snapshot (one decrement, however many enemies
  collide); it deactivates exactly the colliding enemies; and it sets the status to
  \<open>gameover\<close> if and only if \<open>h \<le> 1\<close>, that is, if and only if the resulting health is 0.
\<close>

theorem playerEnemyCollisions_outcome:
  assumes "status gs = Playing"
    and "list_ex (checkCollision (heap r) pe) es"
  shows "health (applyUpdates gs (snd (snd (playerEnemyCollisions gs pe es r))))
           = max 0 (health gs - 1)
       \<and> fst (playerEnemyCollisions gs pe es r)
           = map (\<lambda>e. if checkCollision (heap r) pe e then e\<lparr>eactive := False\<rparr> else e) es
       \<and> (status (applyUpdates gs (snd (snd (playerEnemyCollisions gs pe es r)))) = Gameover)
           = (health gs \<le> 1)
       \<and> (status (applyUpdates gs (snd (snd (playerEnemyCollisions gs pe es r)))) = Gameover)
           = (health (applyUpdates gs (snd (snd (playerEnemyCollisions gs pe es r)))) = 0)"
proof -
  define us where "us = snd (snd (playerEnemyCollisions gs pe es r))"
  have us: "us = concat (map (\<lambda>e. if checkCollision (heap r) pe e
                                    then playerHitUpdates gs else []) es)"
    by (simp add: us_def playerEnemyCollisions_result)
  have h: "health (applyUpdates gs us) = max 0 (health gs - 1)"
    using assms(2) by (simp add: applyUpdates_def us hits_health)
  have s: "(status (applyUpdates gs us) = Gameover) = (health gs \<le> 1)"
    using assms by (simp add: applyUpdates_def us hits_status)
  from h s show ?thesis
    unfolding us_def [symmetric] by (auto simp add: playerEnemyCollisions_result)
qed

theorem playerEnemyCollisions_outcome_witness:
  "status (playingState\<lparr>health := 1\<rparr>) = Playing
   \<and> list_ex (checkCollision (heap enemyAtPlayer)
                (playerEntity (playingState\<lparr>health := 1\<rparr>) PlayerMesh))
        (enemiesRef enemyAtPlayer)
   \<and> health (applyUpdates (playingState\<lparr>health := 1\<rparr>)
        (snd (snd (playerEnemyCollisions (playingState\<lparr>health := 1\<rparr>)
           (playerEntity (playingState\<lparr>health := 1\<rparr>) PlayerMesh)
           (enemiesRef enemyAtPlayer) enemyAtPlayer)))) = 0
   \<and> status (applyUpdates (playingState\<lparr>health := 1\<rparr>)
        (snd (snd (playerEnemyCollisions (playingState\<lparr>health := 1\<rparr>)
           (playerEntity (playingState\<lparr>health := 1\<rparr>) PlayerMesh)
           (enemiesRef enemyAtPlayer) enemyAtPlayer)))) = Gameover"
proof -
  have a: "status (playingState\<lparr>health := 1\<rparr>) = Playing"
    by (simp add: playingState_def startGame_def)
  have b: "list_ex (checkCollision (heap enemyAtPlayer)
                (playerEntity (playingState\<lparr>health := 1\<rparr>) PlayerMesh))
        (enemiesRef enemyAtPlayer)"
    by (simp add: enemyAtPlayer_def frame_eval)
  have c: "health (playingState\<lparr>health := 1\<rparr>) = 1" by simp
  from playerEnemyCollisions_outcome [OF a b] a b c show ?thesis
    by simp
qed

text \<open>
  C1 as stated fails for health 2: after the frame in which the enemy hits the player
  the health is 1, which is at most 1, and the status still is \<open>playing\<close>.
\<close>

theorem gameover_counterexample:
  "health (applyUpdates (playingState\<lparr>health := 2\<rparr>)
      (snd (useFrame (\<lambda>k. 1/2) 2000 (2/125) (playingState\<lparr>health := 2\<rparr>) enemyAtPlayer))) = 1
   \<and> status (applyUpdates (playingState\<lparr>health := 2\<rparr>)
      (snd (useFrame (\<lambda>k. 1/2) 2000 (2/125) (playingState\<lparr>health := 2\<rparr>) enemyAtPlayer))) = Playing
   \<and> map eactive (enemiesRef
      (fst (useFrame (\<lambda>k. 1/2) 2000 (2/125) (playingState\<lparr>health := 2\<rparr>) enemyAtPlayer))) = [False]"
  by (simp add: enemyAtPlayer_def frame_eval applyUpdates_def updateGameState_def spread_def
      noChange_def)

section \<open>Bullet-enemy collisions\<close>

text \<open>
  What the code does guarantee about deactivated entities: the update pass at the head of
  the next frame drops them from their store. Every bullet and power-up it keeps is
  active, and every enemy it keeps is active with positive health.
\<close>

lemma updateBullets_kept: "list_all eactive (fst (updateBullets d bs r))"
  by (induction bs arbitrary: r) (simp_all add: Let_def case_prod_beta)

lemma updateEnemies_kept:
  "list_all (\<lambda>e. eactive e \<and> 0 < ehealth e) (fst (updateEnemies rand d pl es r))"
  by (induction es arbitrary: r) (simp_all add: Let_def case_prod_beta)

lemma updatePowerUps_kept: "list_all eactive (fst (updatePowerUps d ps r))"
  by (induction ps arbitrary: r) (simp_all add: Let_def case_prod_beta)

text \<open>
  Two fire requests 150 ms apart with no frame between them leave two bullets at the same
  place, one unit in front of the player.
\<close>

lemma two_shots_without_frame:
  "map mesh (bulletsRef (shootBullet 1150 (shootBullet 1000 mountedRefs)))
     = [BulletMesh 19, BulletMesh 18]
   \<and> map (heap (shootBullet 1150 (shootBullet 1000 mountedRefs)))
       (map position (bulletsRef (shootBullet 1150 (shootBullet 1000 mountedRefs))))
     = [Vector3 0 0 1, Vector3 0 0 1]"
proof -
  have u: "[0..<20] = [0..<18] @ [18, 19]" by (simp add: upt_rec)
  show ?thesis
    by (simp add: shootBullet_def mountedRefs_def ObjectPool_new_def get_def Let_def u
        butlast_append)
qed

text \<open>
  C2. The claim is that a bullet deactivated by a hit is tested against no further enemy
  in the same frame. In the code the inner loop runs on: one bullet within reach of two
  enemies takes a health point from both in one frame, and its mesh is released to the
  bullet pool twice, so the pool will hand the same mesh to two later bullets.
\<close>

theorem bullet_hits_two_enemies:
  "map ehealth (enemiesRef (fst (useFrame (\<lambda>k. 1/2) 2000 (2/125) playingState oneBulletTwoEnemies)))
     = [2, 2]
   \<and> map eactive (bulletsRef (fst (useFrame (\<lambda>k. 1/2) 2000 (2/125) playingState oneBulletTwoEnemies)))
     = [False]
   \<and> bulletPoolRef (fst (useFrame (\<lambda>k. 1/2) 2000 (2/125) playingState oneBulletTwoEnemies))
     = Some \<lparr>pool = map BulletMesh [0..<19] @ [BulletMesh 19, BulletMesh 19],
             createFn = BulletMesh, constructed = 20\<rparr>"
  by (simp add: oneBulletTwoEnemies_def frame_eval)

text \<open>
  C5. The claim is that no entity's health leaves \<open>[0, maxHealth]\<close>, not even an enemy's
  when several bullets hit it in one frame. In the code two bullets that reach an enemy
  with health 1 in the same frame leave it with health \<open>-1\<close>; the enemy's mesh is released
  to the enemy pool twice and the kill is requested twice.
\<close>

theorem enemy_health_negative:
  "map ehealth (enemiesRef (fst (useFrame (\<lambda>k. 1/2) 2000 (2/125) playingState twoBulletsOneEnemy)))
     = [- 1]
   \<and> enemyPoolRef (fst (useFrame (\<lambda>k. 1/2) 2000 (2/125) playingState twoBulletsOneEnemy))
     = Some \<lparr>pool = map EnemyMesh [0..<9] @ [EnemyMesh 9, EnemyMesh 9], createFn = EnemyMesh,
             constructed = 10\<rparr>
   \<and> snd (useFrame (\<lambda>k. 1/2) 2000 (2/125) playingState twoBulletsOneEnemy)
     = [killUpdate playingState, killUpdate playingState]"
  by (simp add: twoBulletsOneEnemy_def frame_eval killUpdate_def)

section \<open>Player health\<close>

text \<open>
  The session's health, unlike an enemy's, is clamped on both paths that write it: a frame
  that starts with the health in \<open>[0, maxHealth]\<close> ends with it there, and no frame
  changes \<open>maxHealth\<close>.
\<close>

lemma body_update_health:
  assumes "u \<in> {killUpdate gs} \<union> set (playerHitUpdates gs) \<union> range (pickupUpdate gs now)"
  shows "p_maxHealth u = None
     \<and> (p_health u = None \<or> p_health u = Some (max 0 (health gs - 1))
        \<or> p_health u = Some (min (maxHealth gs) (health gs + 1)))"
proof -
  from assms consider "u = killUpdate gs" | "u \<in> set (playerHitUpdates gs)"
    | pu where "u = pickupUpdate gs now pu"
    by blast
  then show ?thesis
  proof cases
    case 1
    then show ?thesis by (simp add: killUpdate_def noChange_def)
  next
    case 2
    then have "u = noChange\<lparr>p_health := Some (max 0 (health gs - 1))\<rparr>
                   \<or> u = noChange\<lparr>p_status := Some Gameover\<rparr>"
      by (simp add: playerHitUpdates_def split: if_splits)
    then show ?thesis by (auto simp add: noChange_def)
  next
    case 3
    then show ?thesis by (simp add: pickupUpdate_def noChange_def)
  qed
qed

lemma player_health_in_range:
  assumes "0 \<le> health gs" and "health gs \<le> maxHealth gs"
  shows "0 \<le> health (applyUpdates gs (snd (useFrame rand now delta gs r)))
       \<and> health (applyUpdates gs (snd (useFrame rand now delta gs r))) \<le> maxHealth gs
       \<and> maxHealth (applyUpdates gs (snd (useFrame rand now delta gs r))) = maxHealth gs"
proof (cases "status gs = Playing \<and> playerRef r \<noteq> None")
  case False
  then have "useFrame rand now delta gs r = (r, [])"
    by (intro useFrame_idle) auto
  with assms show ?thesis by (simp add: applyUpdates_def)
next
  case True
  then obtain pl where pl: "playerRef r = Some pl" and st: "status gs = Playing" by auto
  define rb where "rb = fst (frameBody rand now delta gs pl r)"
  define ub where "ub = snd (frameBody rand now delta gs pl r)"
  define I where "I = (\<lambda>t::GameState. 0 \<le> health t \<and> health t \<le> maxHealth gs
                        \<and> maxHealth t = maxHealth gs)"
  have uf: "snd (useFrame rand now delta gs r) = ub @ snd (waveProgression gs delta rb)"
    by (simp add: useFrame_playing [OF st pl] rb_def ub_def)
  have ub: "set ub \<subseteq> {killUpdate gs} \<union> set (playerHitUpdates gs) \<union> range (pickupUpdate gs now)"
    unfolding ub_def by (rule frameBody_updates)
  have wave_none: "p_maxHealth u = None \<and> p_health u = None"
    if "u \<in> set (snd (waveProgression gs delta rb))" for u
    using that by (auto simp add: waveProgression_cases waveUpdate_def noChange_def split: if_splits)
  have step: "I (updateGameState t u)"
    if u: "u \<in> set (ub @ snd (waveProgression gs delta rb))" and t: "I t" for t :: GameState and u
  proof -
    from u have "u \<in> set ub \<or> u \<in> set (snd (waveProgression gs delta rb))" by simp
    with ub wave_none [of u] body_update_health [of u gs now]
    have "p_maxHealth u = None
     \<and> (p_health u = None \<or> p_health u = Some (max 0 (health gs - 1))
        \<or> p_health u = Some (min (maxHealth gs) (health gs + 1)))"
      by blast
    with t assms show ?thesis
      by (auto simp add: I_def updateGameState_fields updateGameState_def spread_def)
  qed
  have "I gs" using assms by (simp add: I_def)
  then have "I (foldl updateGameState gs (ub @ snd (waveProgression gs delta rb)))"
    using step by (rule foldl_updateGameState_invariant)
  then show ?thesis by (simp add: I_def uf applyUpdates_def)
qed

section \<open>Power-up effects\<close>

text \<open>
  C3 (amended). No frame removes an effect from \<open>activePowerUps\<close>: after any frame the
  list is the snapshot's list followed by at most one new effect, a shield of duration 10
  stamped with the current time. Nothing in the frame reads \<open>duration\<close> or \<open>startTime\<close>;
  only \<open>startGame\<close> empties the list.
\<close>

theorem activePowerUps_never_pruned:
  "\<exists>ps. activePowerUps (applyUpdates gs (snd (useFrame rand now delta gs r)))
          = activePowerUps gs @ ps
        \<and> length ps \<le> 1
        \<and> list_all (\<lambda>p. ptype p = Shield \<and> duration p = 10 \<and> pactive p \<and> startTime p = now) ps"
proof (cases "status gs = Playing \<and> playerRef r \<noteq> None")
  case False
  then have "useFrame rand now delta gs r = (r, [])"
    by (intro useFrame_idle) auto
  then show ?thesis by (simp add: applyUpdates_def)
next
  case True
  then obtain pl where pl: "playerRef r = Some pl" and st: "status gs = Playing" by auto
  define rb where "rb = fst (frameBody rand now delta gs pl r)"
  define ub where "ub = snd (frameBody rand now delta gs pl r)"
  define I where "I = (\<lambda>t::GameState. \<exists>ps. activePowerUps t = activePowerUps gs @ ps \<and> length ps \<le> 1
      \<and> list_all (\<lambda>p. ptype p = Shield \<and> duration p = 10 \<and> pactive p \<and> startTime p = now) ps)"
  have uf: "snd (useFrame rand now delta gs r) = ub @ snd (waveProgression gs delta rb)"
    by (simp add: useFrame_playing [OF st pl] rb_def ub_def)
  have ub: "set ub \<subseteq> {killUpdate gs} \<union> set (playerHitUpdates gs) \<union> range (pickupUpdate gs now)"
    unfolding ub_def by (rule frameBody_updates)
  have wave_none: "u \<in> set (snd (waveProgression gs delta rb)) \<Longrightarrow> p_activePowerUps u = None" for u
    by (auto simp add: waveProgression_cases waveUpdate_def noChange_def split: if_splits)
  have step: "I (updateGameState t u)"
    if u: "u \<in> set (ub @ snd (waveProgression gs delta rb))" and t: "I t" for t :: GameState and u
  proof -
    from u have "u \<in> set ub \<or> u \<in> set (snd (waveProgression gs delta rb))" by simp
    with ub wave_none [of u] body_update_fields(3) [of u gs now]
    have "p_activePowerUps u = None
         \<or> (\<exists>pu::GameEntity. p_activePowerUps u = Some (activePowerUps gs @
               [\<lparr>pid = eid pu, ptype = Shield, duration = 10, pactive = True,
                 startTime = now\<rparr>]))"
      by blast
    then show ?thesis
    proof
      assume "p_activePowerUps u = None"
      with t show ?thesis by (simp add: I_def updateGameState_fields spread_def)
    next
      assume "\<exists>pu::GameEntity. p_activePowerUps u = Some (activePowerUps gs @
               [\<lparr>pid = eid pu, ptype = Shield, duration = 10, pactive = True,
                 startTime = now\<rparr>])"
      then obtain pu :: GameEntity where "p_activePowerUps u = Some (activePowerUps gs @
               [\<lparr>pid = eid pu, ptype = Shield, duration = 10, pactive = True,
                 startTime = now\<rparr>])" ..
      then show ?thesis
        unfolding I_def updateGameState_fields spread_def
        by (intro exI [of _ "[\<lparr>pid = eid pu, ptype = Shield, duration = 10, pactive = True,
                 startTime = now\<rparr>]"]) simp
    qed
  qed
  have "I gs" by (simp add: I_def)
  then have "I (foldl updateGameState gs (ub @ snd (waveProgression gs delta rb)))"
    using step by (rule foldl_updateGameState_invariant)
  then show ?thesis by (simp add: I_def uf applyUpdates_def)
qed

theorem activePowerUps_never_pruned_witness:
  "\<exists>ps. activePowerUps (applyUpdates (playingState\<lparr>activePowerUps := [oldShield]\<rparr>)
      (snd (useFrame (\<lambda>k. 1/2) 20000 (2/125) (playingState\<lparr>activePowerUps := [oldShield]\<rparr>)
             powerUpAtPlayer)))
     = activePowerUps (playingState\<lparr>activePowerUps := [oldShield]\<rparr>) @ ps
   \<and> length ps \<le> 1
   \<and> list_all (\<lambda>p. ptype p = Shield \<and> duration p = 10 \<and> pactive p \<and> startTime p = 20000) ps"
  by (rule activePowerUps_never_pruned)

text \<open>
  C3 as stated fails: a shield that is 20 s old, with a duration of 10 s, is still in the
  list after a frame, even after a frame that writes the list (the player picks up a
  power-up).
\<close>

theorem expired_effect_counterexample:
  "activePowerUps (applyUpdates (playingState\<lparr>activePowerUps := [oldShield]\<rparr>)
      (snd (useFrame (\<lambda>k. 1/2) 20000 (2/125) (playingState\<lparr>activePowerUps := [oldShield]\<rparr>)
             powerUpAtPlayer)))
     = [oldShield,
        \<lparr>pid = PowerupId 0, ptype = Shield, duration = 10, pactive = True, startTime = 20000\<rparr>]
   \<and> 20000 - startTime oldShield > duration oldShield * 1000
   \<and> powerUpsRef (fst (useFrame (\<lambda>k. 1/2) 20000 (2/125)
        (playingState\<lparr>activePowerUps := [oldShield]\<rparr>) powerUpAtPlayer)) = []"
  by (simp add: powerUpAtPlayer_def frame_eval applyUpdates_def updateGameState_def spread_def
      noChange_def oldShield_def)

section \<open>Wave progression\<close>

text \<open>
  C7. A frame requests a change of \<open>wave\<close> or \<open>level\<close> only when, at its end, the enemy
  store is empty (so no enemy is active), \<open>enemiesRemaining\<close> of the snapshot is at most 0
  and the wave timer plus the frame's delta exceeds 3. When it does, the state after the
  frame has \<open>wave\<close> and \<open>level\<close> one higher, \<open>enemiesRemaining\<close> equal to 5 plus the old
  wave, and the wave timer is 0; when it does not, \<open>wave\<close> and \<open>level\<close> are unchanged.
  Conversely a frame that runs (status \<open>playing\<close>, player mounted) under the three
  conditions does request the change.
\<close>

theorem wave_progression:
  "(if list_ex (\<lambda>u. p_wave u \<noteq> None \<or> p_level u \<noteq> None) (snd (useFrame rand now delta gs r))
    then filter eactive (enemiesRef (fst (useFrame rand now delta gs r))) = []
       \<and> length (enemiesRef (fst (useFrame rand now delta gs r))) = 0
       \<and> enemiesRemaining gs \<le> 0
       \<and> waveTimerRef r + delta > 3
       \<and> wave (applyUpdates gs (snd (useFrame rand now delta gs r))) = wave gs + 1
       \<and> level (applyUpdates gs (snd (useFrame rand now delta gs r))) = level gs + 1
       \<and> enemiesRemaining (applyUpdates gs (snd (useFrame rand now delta gs r))) = 5 + wave gs
       \<and> waveTimerRef (fst (useFrame rand now delta gs r)) = 0
    else wave (applyUpdates gs (snd (useFrame rand now delta gs r))) = wave gs
       \<and> level (applyUpdates gs (snd (useFrame rand now delta gs r))) = level gs)
   \<and> (status gs = Playing \<and> playerRef r \<noteq> None
       \<and> length (enemiesRef (fst (useFrame rand now delta gs r))) = 0
       \<and> enemiesRemaining gs \<le> 0 \<and> waveTimerRef r + delta > 3
      \<longrightarrow> list_ex (\<lambda>u. p_wave u \<noteq> None \<or> p_level u \<noteq> None) (snd (useFrame rand now delta gs r)))"
proof (cases "status gs = Playing \<and> playerRef r \<noteq> None")
  case False
  then have "useFrame rand now delta gs r = (r, [])"
    by (intro useFrame_idle) auto
  with False show ?thesis by (auto simp add: applyUpdates_def)
next
  case True
  then obtain pl where pl: "playerRef r = Some pl" and st: "status gs = Playing" by auto
  define rb where "rb = fst (frameBody rand now delta gs pl r)"
  define ub where "ub = snd (frameBody rand now delta gs pl r)"
  define due where "due = (length (enemiesRef rb) = 0 \<and> enemiesRemaining gs \<le> 0
                           \<and> waveTimerRef r + delta > 3)"
  have timer: "waveTimerRef rb = waveTimerRef r"
    by (simp add: rb_def frameBody_timer)
  have uf: "useFrame rand now delta gs r =
              (fst (waveProgression gs delta rb), ub @ snd (waveProgression gs delta rb))"
    by (simp add: useFrame_playing [OF st pl] rb_def ub_def)
  have ub: "set ub \<subseteq> {killUpdate gs} \<union> set (playerHitUpdates gs) \<union> range (pickupUpdate gs now)"
    unfolding ub_def by (rule frameBody_updates)
  have quiet: "\<not> list_ex (\<lambda>u. p_wave u \<noteq> None \<or> p_level u \<noteq> None) ub"
  proof -
    have "p_wave u = None \<and> p_level u = None" if "u \<in> set ub" for u
      using that ub body_update_fields(1,2) [of u gs now] by blast
    then show ?thesis by (auto simp add: list_ex_iff)
  qed
  have mid: "wave (foldl updateGameState gs ub) = wave gs
             \<and> level (foldl updateGameState gs ub) = level gs"
    using ub by (rule body_updates_keep_wave)
  show ?thesis
  proof (cases due)
    case True
    then have wp: "waveProgression gs delta rb = (rb\<lparr>waveTimerRef := 0\<rparr>, [waveUpdate gs])"
      by (simp add: waveProgression_cases due_def timer)
    have fired: "list_ex (\<lambda>u. p_wave u \<noteq> None \<or> p_level u \<noteq> None) (ub @ [waveUpdate gs])"
      by (simp add: waveUpdate_def)
    from True have e: "enemiesRef rb = []" by (simp add: due_def)
    from True mid e fired show ?thesis
      by (simp add: uf wp applyUpdates_def updateGameState_fields spread_def waveUpdate_def
          due_def)
  next
    case False
    then have wp: "snd (waveProgression gs delta rb) = []"
      and en: "enemiesRef (fst (waveProgression gs delta rb)) = enemiesRef rb"
      by (simp_all add: waveProgression_cases due_def timer)
    from False quiet mid show ?thesis
      by (simp add: uf wp en applyUpdates_def due_def)
  qed
qed

lemma wave_fires_example:
  "list_ex (\<lambda>u. p_wave u \<noteq> None \<or> p_level u \<noteq> None)
     (snd (useFrame (\<lambda>k. 1/2) 2000 (1/10) (playingState\<lparr>enemiesRemaining := 0\<rparr>)
            (mountedRefs\<lparr>waveTimerRef := 3\<rparr>)))"
  by (simp add: frame_eval noChange_def)

theorem wave_progression_witness:
  "wave (applyUpdates (playingState\<lparr>enemiesRemaining := 0\<rparr>)
     (snd (useFrame (\<lambda>k. 1/2) 2000 (1/10) (playingState\<lparr>enemiesRemaining := 0\<rparr>)
            (mountedRefs\<lparr>waveTimerRef := 3\<rparr>)))) = 2
   \<and> level (applyUpdates (playingState\<lparr>enemiesRemaining := 0\<rparr>)
     (snd (useFrame (\<lambda>k. 1/2) 2000 (1/10) (playingState\<lparr>enemiesRemaining := 0\<rparr>)
            (mountedRefs\<lparr>waveTimerRef := 3\<rparr>)))) = 2
   \<and> enemiesRemaining (applyUpdates (playingState\<lparr>enemiesRemaining := 0\<rparr>)
     (snd (useFrame (\<lambda>k. 1/2) 2000 (1/10) (playingState\<lparr>enemiesRemaining := 0\<rparr>)
            (mountedRefs\<lparr>waveTimerRef := 3\<rparr>)))) = 6
   \<and> waveTimerRef (fst (useFrame (\<lambda>k. 1/2) 2000 (1/10) (playingState\<lparr>enemiesRemaining := 0\<rparr>)
            (mountedRefs\<lparr>waveTimerRef := 3\<rparr>))) = 0"
proof -
  have w: "wave (playingState\<lparr>enemiesRemaining := 0\<rparr>) = 1"
    and l: "level (playingState\<lparr>enemiesRemaining := 0\<rparr>) = 1"
    by (simp_all add: playingState_def startGame_def)
  from wave_progression [of "\<lambda>k. 1/2" 2000 "1/10" "playingState\<lparr>enemiesRemaining := 0\<rparr>"
      "mountedRefs\<lparr>waveTimerRef := 3\<rparr>"] wave_fires_example
  show ?thesis
    by (simp only: if_True w l) simp
qed


end
